theory Spec2Isabelle
  imports Main "HOL-Library.Sublist" "HOL-Library.Word"
begin

section \<open>Values shared by the whole program\<close>

text \<open>
  The program is one Python module, \<^verbatim>\<open>main.py\<close>, with two classes:
  \<^verbatim>\<open>EmailProcessor\<close> (mailbox scan and link extraction) and \<^verbatim>\<open>LinkHandler\<close>
  (visiting the links over HTTP). Everything else is done by libraries: \<^verbatim>\<open>imaplib\<close>,
  \<^verbatim>\<open>email\<close>, \<^verbatim>\<open>bs4\<close> and \<^verbatim>\<open>requests\<close> with \<^verbatim>\<open>urllib3\<close>'s \<^verbatim>\<open>Retry\<close>. What a
  library computes from data (decoding bytes, parsing HTML, answering an IMAP command,
  answering an HTTP request) is a parameter of the model; the control flow the module
  writes around these calls, and the retry and redirect rules of the session it
  configures, are modelled in full.

  A Python \<^verbatim>\<open>bytes\<close> object is a list of 8-bit words. A Python \<^verbatim>\<open>str\<close> is a
  \<^typ>\<open>string\<close>.
\<close>

type_synonym bytes = "8 word list"

text \<open>The exceptions that can leave a method of \<^verbatim>\<open>EmailProcessor\<close>.\<close>

datatype error =
    UnicodeDecodeError    \<comment> \<open>raised by \<^verbatim>\<open>bytes.decode()\<close> in \<^verbatim>\<open>_extract_links_from_email\<close>\<close>
  | ParserRejectedMarkup  \<comment> \<open>raised by \<^verbatim>\<open>BeautifulSoup(...)\<close> in \<^verbatim>\<open>_parse_html_for_links\<close>\<close>
  | IMAP_error            \<comment> \<open>raised by a command of the mailbox session\<close>

section \<open>Scanning HTML for unsubscribe links\<close>

text \<open>
  \<^verbatim>\<open>BeautifulSoup(html_content, 'html.parser')\<close> accepts text as well as raw bytes
  (the multi-part branch of the extractor hands it bytes). It does not accept every
  document: on markup that \<^verbatim>\<open>html.parser\<close> gives up on (an unknown marked section such
  as \<^verbatim>\<open><![foo]>\<close>) the constructor raises \<^verbatim>\<open>ParserRejectedMarkup\<close>. The parsed document
  is seen by \<^verbatim>\<open>find_all\<close> as its elements in document order, each with a name and a
  dictionary of attributes.
\<close>

datatype markup = Text string | Raw bytes

record tag =
  tag_name :: string
  tag_attrs :: "string \<rightharpoonup> string"

record library =
  bytes_decode :: "bytes \<Rightarrow> string option"
    \<comment> \<open>\<^verbatim>\<open>b.decode()\<close>: strict, default codec; \<open>None\<close> is \<^verbatim>\<open>UnicodeDecodeError\<close>\<close>
  BeautifulSoup :: "markup \<Rightarrow> tag list option"
    \<comment> \<open>the elements of the parsed document, in document order; \<open>None\<close> is
       \<^verbatim>\<open>ParserRejectedMarkup\<close>\<close>

text \<open>
  \<^verbatim>\<open>str.lower()\<close>, on the ASCII letters. The test below looks for an ASCII word, and
  no character outside \<open>A\<close>..\<open>Z\<close> lowers to one of its letters in a place where it
  could complete the word, so the other characters are left as they are.
\<close>

definition lower_char :: "char \<Rightarrow> char" where
  "lower_char c =
     (case map_of (zip ''ABCDEFGHIJKLMNOPQRSTUVWXYZ'' ''abcdefghijklmnopqrstuvwxyz'') c of
        Some l \<Rightarrow> l
      | None \<Rightarrow> c)"

definition lower :: "string \<Rightarrow> string" where
  "lower s = map lower_char s"

text \<open>\<^verbatim>\<open>soup.find_all(nm, attr=True)\<close>: the elements called \<open>nm\<close> that have the attribute.\<close>

definition find_all :: "tag list \<Rightarrow> string \<Rightarrow> string \<Rightarrow> tag list" where
  "find_all soup nm attr = filter (\<lambda>t. tag_name t = nm \<and> tag_attrs t attr \<noteq> None) soup"

text \<open>
  \<^verbatim>\<open>
  def _parse_html_for_links(self, html_content):
      soup = BeautifulSoup(html_content, 'html.parser')
      return [link['href'] for link in soup.find_all('a', href=True)
              if "unsubscribe" in link["href"].lower()]
  \<close>
  \<^verbatim>\<open>link['href']\<close> cannot raise \<^verbatim>\<open>KeyError\<close> here: \<^verbatim>\<open>find_all\<close> kept only elements
  that have the attribute. The method has no \<^verbatim>\<open>try\<close>: the exception of the parser
  leaves it.
\<close>

definition parse_html_for_links :: "library \<Rightarrow> markup \<Rightarrow> error + string list" where
  "parse_html_for_links lib html_content =
     (case BeautifulSoup lib html_content of
        None \<Rightarrow> Inl ParserRejectedMarkup
      | Some soup \<Rightarrow>
          Inr [href. link \<leftarrow> find_all soup ''a'' ''href'',
                     Some href \<leftarrow> [tag_attrs link ''href''],
                     sublist ''unsubscribe'' (lower href)])"

text \<open>
  The same result in the words of the specification: the href values of the anchor
  elements that have a non-empty href whose lowercase form contains \<open>unsubscribe\<close>, in
  document order.
\<close>

definition is_unsubscribe_anchor :: "tag \<Rightarrow> bool" where
  "is_unsubscribe_anchor t =
     (tag_name t = ''a'' \<and>
      (case tag_attrs t ''href'' of
         None \<Rightarrow> False
       | Some h \<Rightarrow> h \<noteq> [] \<and> sublist ''unsubscribe'' (lower h)))"

definition unsubscribe_hrefs :: "tag list \<Rightarrow> string list" where
  "unsubscribe_hrefs soup =
     map (\<lambda>t. case tag_attrs t ''href'' of Some h \<Rightarrow> h | None \<Rightarrow> [])
         (filter is_unsubscribe_anchor soup)"

section \<open>Messages\<close>

text \<open>
  An \<^verbatim>\<open>email.message.Message\<close> as \<^verbatim>\<open>email.message_from_bytes\<close> builds it: either its
  payload is a list of messages (\<^verbatim>\<open>is_multipart()\<close> is true), or it is a leaf. Of a leaf
  the program reads
  \<^item> \<open>headers\<close>: the number of header lines, which is \<^verbatim>\<open>len(msg)\<close> and decides
    \<^verbatim>\<open>if msg:\<close>;
  \<^item> \<open>content_type\<close>: what \<^verbatim>\<open>get_content_type()\<close> returns;
  \<^item> \<open>payload\<close>: the bytes that \<^verbatim>\<open>get_payload(decode=True)\<close> returns, after the
    transfer decoding. That call does not raise, but on malformed base64 it records
    what it found on the message (\<^verbatim>\<open>self.policy.handle_defect(self, defect)\<close>, that is
    \<^verbatim>\<open>self.defects.append(defect)\<close> under the default policy);
  \<^item> \<open>decode_defects\<close>: the defects that decoding this payload finds, none for a
    well-formed one;
  \<^item> \<open>defects\<close>: the list \<^verbatim>\<open>msg.defects\<close>, which the object carries and the call
    above extends in place.

  The parser gives a list payload only to a \<^verbatim>\<open>multipart/*\<close> or \<^verbatim>\<open>message/*\<close> part, so
  a container has a \<^verbatim>\<open>Content-Type\<close> header, its content type is never \<^verbatim>\<open>text/html\<close>,
  and neither is recorded.
\<close>

datatype defect =
  InvalidBase64PaddingDefect | InvalidBase64CharactersDefect | InvalidBase64LengthDefect

record leaf =
  headers :: nat
  content_type :: string
  payload :: bytes
  decode_defects :: "defect list"
  defects :: "defect list"

datatype message = Leaf leaf | Container "message list"

fun is_multipart :: "message \<Rightarrow> bool" where
  "is_multipart (Leaf l) = False"
| "is_multipart (Container ps) = True"

text \<open>
  The truth value of a message object is that of its length, the number of its header
  lines.
\<close>

fun truthy :: "message \<Rightarrow> bool" where
  "truthy (Leaf l) = (0 < headers l)"
| "truthy (Container ps) = True"

text \<open>\<^verbatim>\<open>msg.walk()\<close>: the message itself, then the walk of each sub-part, depth first.\<close>

fun walk :: "message \<Rightarrow> message list" where
  "walk (Leaf l) = [Leaf l]"
| "walk (Container ps) = Container ps # concat (map walk ps)"

text \<open>\<^verbatim>\<open>part.get_payload(decode=True)\<close> on a leaf: the bytes, and the leaf as the call leaves it.\<close>

definition get_payload_decode :: "leaf \<Rightarrow> bytes \<times> leaf" where
  "get_payload_decode l = (payload l, l\<lparr>defects := defects l @ decode_defects l\<rparr>)"

section \<open>The state of the run\<close>

text \<open>
  What the program does to the outside is recorded in the state: the commands sent on
  the mailbox session, the number of HTTP requests sent so far, and the records handed
  to \<^verbatim>\<open>logging\<close>, in order.
\<close>

type_synonym email_id = string

datatype request_exception =
    RetryError             \<comment> \<open>retries exhausted on a response with a retried status\<close>
  | ConnectionError        \<comment> \<open>retries exhausted without response, or the body timed out\<close>
  | InvalidHeader          \<comment> \<open>a \<^verbatim>\<open>Retry-After\<close> value that does not parse\<close>
  | InvalidURL             \<comment> \<open>also \<^verbatim>\<open>MissingSchema\<close>, \<^verbatim>\<open>InvalidSchema\<close>: raised before any request\<close>
  | ChunkedEncodingError   \<comment> \<open>also \<^verbatim>\<open>ContentDecodingError\<close>: the body does not read\<close>
  | TooManyRedirects

datatype imap_command = Search | Fetch email_id | Logout

datatype log_record =
    Fetch_failed email_id             \<comment> \<open>\<^verbatim>\<open>logging.error("Failed to fetch email ID ...")\<close>\<close>
  | Total_found nat                   \<comment> \<open>\<^verbatim>\<open>logging.info("Total unsubscribe links found: ...")\<close>\<close>
  | Logged_out                        \<comment> \<open>\<^verbatim>\<open>logging.info("Logged out from the email server.")\<close>\<close>
  | Accessed string                   \<comment> \<open>\<^verbatim>\<open>logging.info("Successfully accessed ...")\<close>\<close>
  | Failed string nat                 \<comment> \<open>\<^verbatim>\<open>logging.warning("Failed to access ... (Status: ...)")\<close>\<close>
  | Errored string request_exception  \<comment> \<open>\<^verbatim>\<open>logging.error("Error accessing link ...")\<close>\<close>

record state =
  commands :: "imap_command list"
  requests :: nat
  log :: "log_record list"

definition idle :: state where
  "idle = \<lparr>commands = [], requests = 0, log = []\<rparr>"

section \<open>Extracting the links of one message\<close>

text \<open>
  \<^verbatim>\<open>
  def _extract_links_from_email(self, msg):
      unsubscribe_links = []
      if msg.is_multipart():
          for part in msg.walk():
              if part.get_content_type() == "text/html":
                  html_content = part.get_payload(decode=True)
                  unsubscribe_links.extend(self._parse_html_for_links(html_content))
      else:
          content = msg.get_payload(decode=True).decode()
          if msg.get_content_type() == "text/html":
              unsubscribe_links.extend(self._parse_html_for_links(content))
      return unsubscribe_links
  \<close>
  The loop of the multi-part branch, as the outcome it computes from the parts in the
  order of the walk, with its accumulator. The payload of a part goes to the scanner as
  bytes: this branch has no \<^verbatim>\<open>.decode()\<close>. The first part that the parser rejects ends
  the loop with the exception.
\<close>

fun extract_parts :: "library \<Rightarrow> message list \<Rightarrow> string list \<Rightarrow> error + string list" where
  "extract_parts lib [] unsubscribe_links = Inr unsubscribe_links"
| "extract_parts lib (Leaf l # parts) unsubscribe_links =
     (if content_type l = ''text/html''
      then (case parse_html_for_links lib (Raw (payload l)) of
              Inl e \<Rightarrow> Inl e
            | Inr found \<Rightarrow> extract_parts lib parts (unsubscribe_links @ found))
      else extract_parts lib parts unsubscribe_links)"
| "extract_parts lib (Container ps # parts) unsubscribe_links =
     extract_parts lib parts unsubscribe_links"

text \<open>
  The same loop with what it does to the message. The parts are objects inside the
  message, and reading the payload of one extends its defect list in place, so the loop
  is written on the tree: it visits the parts in the order of \<open>walk\<close> and hands back
  the tree as the parts were left, also when an exception ends it.
\<close>

fun extract_walk ::
    "library \<Rightarrow> message \<Rightarrow> string list \<Rightarrow> (error + string list) \<times> message"
  and extract_walks ::
    "library \<Rightarrow> message list \<Rightarrow> string list \<Rightarrow> (error + string list) \<times> message list"
where
  "extract_walk lib (Leaf l) unsubscribe_links =
     (if content_type l = ''text/html''
      then (case get_payload_decode l of
              (html_content, l') \<Rightarrow>
                (case parse_html_for_links lib (Raw html_content) of
                   Inl e \<Rightarrow> (Inl e, Leaf l')
                 | Inr found \<Rightarrow> (Inr (unsubscribe_links @ found), Leaf l')))
      else (Inr unsubscribe_links, Leaf l))"
| "extract_walk lib (Container ps) unsubscribe_links =
     (case extract_walks lib ps unsubscribe_links of
        (outcome, ps') \<Rightarrow> (outcome, Container ps'))"
| "extract_walks lib [] unsubscribe_links = (Inr unsubscribe_links, [])"
| "extract_walks lib (p # ps) unsubscribe_links =
     (case extract_walk lib p unsubscribe_links of
        (Inl e, p') \<Rightarrow> (Inl e, p' # ps)
      | (Inr found, p') \<Rightarrow>
          (case extract_walks lib ps found of
             (outcome, ps') \<Rightarrow> (outcome, p' # ps')))"

text \<open>
  The method takes \<^verbatim>\<open>self\<close> and the message; it hands back its outcome, the message
  as it left it, and the state. In the single-part branch the payload is fetched and
  decoded first and the content type is looked at afterwards; \<^verbatim>\<open>UnicodeDecodeError\<close>
  leaves the method, and so does the exception of the parser in both branches.
\<close>

fun extract_links_from_email ::
  "library \<Rightarrow> message \<Rightarrow> state \<Rightarrow> (error + string list) \<times> message \<times> state" where
  "extract_links_from_email lib (Container ps) st =
     (case extract_walk lib (Container ps) [] of
        (outcome, msg') \<Rightarrow> (outcome, msg', st))"
| "extract_links_from_email lib (Leaf l) st =
     (case get_payload_decode l of
        (p, l') \<Rightarrow>
          (case bytes_decode lib p of
             None \<Rightarrow> (Inl UnicodeDecodeError, Leaf l', st)
           | Some content \<Rightarrow>
               (if content_type l = ''text/html''
                then (parse_html_for_links lib (Text content), Leaf l', st)
                else (Inr [], Leaf l', st))))"

text \<open>
  In the words of the specification: the payloads of the leaf parts whose content type
  is exactly \<open>text/html\<close>, at any depth, in the order of the parts.
\<close>

fun html_leaves :: "message \<Rightarrow> bytes list" where
  "html_leaves (Leaf l) = (if content_type l = ''text/html'' then [payload l] else [])"
| "html_leaves (Container ps) = concat (map html_leaves ps)"

text \<open>The payload of one part of the walk, when that part is an HTML leaf.\<close>

fun own_html :: "message \<Rightarrow> bytes list" where
  "own_html (Leaf l) = (if content_type l = ''text/html'' then [payload l] else [])"
| "own_html (Container ps) = []"

text \<open>The links of a document that the parser accepts (none otherwise).\<close>

definition links_in :: "library \<Rightarrow> markup \<Rightarrow> string list" where
  "links_in lib html_content =
     (case parse_html_for_links lib html_content of Inr found \<Rightarrow> found | Inl e \<Rightarrow> [])"

definition accepts :: "library \<Rightarrow> markup \<Rightarrow> bool" where
  "accepts lib html_content = (BeautifulSoup lib html_content \<noteq> None)"



section \<open>Scanning the mailbox\<close>

text \<open>
  The mailbox is the other end of the \<^verbatim>\<open>imaplib\<close> session, already connected and
  logged in by the constructor.
  \<^item> \<open>search_reply\<close> is the outcome of
    \<^verbatim>\<open>self.mail.search(None, SEARCH_CRITERIA)\<close> followed by \<^verbatim>\<open>search_data[0].split()\<close>:
    the identifiers, or the exception either of the two raises.
  \<^item> \<open>fetch_reply\<close> is the outcome of the body of the \<^verbatim>\<open>try\<close> in \<^verbatim>\<open>_fetch_email_data\<close>:
    the parsed message, or \<open>None\<close> when \<^verbatim>\<open>fetch\<close>, the indexing \<^verbatim>\<open>data[0][1]\<close> or
    \<^verbatim>\<open>message_from_bytes\<close> raises anything.
  \<^item> \<open>logout_reply\<close> is the exception \<^verbatim>\<open>logout()\<close> raises, if any.
\<close>

record mailbox =
  search_reply :: "error + email_id list"
  fetch_reply :: "email_id \<Rightarrow> message option"
  logout_reply :: "error option"

text \<open>
  \<^verbatim>\<open>
  def _fetch_email_data(self, email_id):
      try:
          _, data = self.mail.fetch(email_id, "(RFC822)")
          return email.message_from_bytes(data[0][1])
      except Exception as e:
          logging.error(f"Failed to fetch email ID {email_id}: {e}")
          return None
  \<close>
\<close>

definition fetch_email_data :: "mailbox \<Rightarrow> email_id \<Rightarrow> state \<Rightarrow> message option \<times> state" where
  "fetch_email_data mb email_id st =
     (let st1 = st\<lparr>commands := commands st @ [Fetch email_id]\<rparr>
      in case fetch_reply mb email_id of
           Some msg \<Rightarrow> (Some msg, st1)
         | None \<Rightarrow> (None, st1\<lparr>log := log st1 @ [Fetch_failed email_id]\<rparr>))"

text \<open>
  \<^verbatim>\<open>
  def find_unsubscribe_links(self):
      try:
          _, search_data = self.mail.search(None, SEARCH_CRITERIA)
          email_ids = search_data[0].split()
          unsubscribe_links = []
          for email_id in email_ids:
              msg = self._fetch_email_data(email_id)
              if msg:
                  unsubscribe_links.extend(self._extract_links_from_email(msg))
          logging.info(f"Total unsubscribe links found: {len(unsubscribe_links)}")
          return unsubscribe_links
      finally:
          self.mail.logout()
          logging.info("Logged out from the email server.")
  \<close>
  First the \<^verbatim>\<open>for\<close> loop, then the body of the \<^verbatim>\<open>try\<close>, then the method with its
  \<^verbatim>\<open>finally\<close>. \<^verbatim>\<open>if msg:\<close> skips \<^verbatim>\<open>None\<close> and also a message that is false, one
  without header lines. An exception of the extractor is not caught in the loop: it
  ends the \<^verbatim>\<open>try\<close> block. The message object is dropped after its turn. An exception
  raised inside \<^verbatim>\<open>finally\<close> replaces the outcome of the block.
\<close>

fun scan_ids ::
  "library \<Rightarrow> mailbox \<Rightarrow> email_id list \<Rightarrow> string list \<Rightarrow> state \<Rightarrow> (error + string list) \<times> state"
where
  "scan_ids lib mb [] unsubscribe_links st = (Inr unsubscribe_links, st)"
| "scan_ids lib mb (email_id # email_ids) unsubscribe_links st =
     (case fetch_email_data mb email_id st of
        (None, st1) \<Rightarrow> scan_ids lib mb email_ids unsubscribe_links st1
      | (Some msg, st1) \<Rightarrow>
          (if truthy msg
           then (case extract_links_from_email lib msg st1 of
                   (Inl e, msg', st2) \<Rightarrow> (Inl e, st2)
                 | (Inr found, msg', st2) \<Rightarrow>
                     scan_ids lib mb email_ids (unsubscribe_links @ found) st2)
           else scan_ids lib mb email_ids unsubscribe_links st1))"

definition try_block :: "library \<Rightarrow> mailbox \<Rightarrow> state \<Rightarrow> (error + string list) \<times> state" where
  "try_block lib mb st =
     (let st1 = st\<lparr>commands := commands st @ [Search]\<rparr>
      in case search_reply mb of
           Inl e \<Rightarrow> (Inl e, st1)
         | Inr email_ids \<Rightarrow>
             (case scan_ids lib mb email_ids [] st1 of
                (Inl e, st2) \<Rightarrow> (Inl e, st2)
              | (Inr unsubscribe_links, st2) \<Rightarrow>
                  (Inr unsubscribe_links,
                   st2\<lparr>log := log st2 @ [Total_found (length unsubscribe_links)]\<rparr>)))"

definition find_unsubscribe_links ::
  "library \<Rightarrow> mailbox \<Rightarrow> state \<Rightarrow> (error + string list) \<times> state" where
  "find_unsubscribe_links lib mb st =
     (case try_block lib mb st of
        (outcome, st1) \<Rightarrow>
          (let st2 = st1\<lparr>commands := commands st1 @ [Logout]\<rparr>
           in case logout_reply mb of
                Some e \<Rightarrow> (Inl e, st2)
              | None \<Rightarrow> (outcome, st2\<lparr>log := log st2 @ [Logged_out]\<rparr>)))"

text \<open>The number of times a command occurs in the trace of the session.\<close>

definition times_sent :: "imap_command \<Rightarrow> state \<Rightarrow> nat" where
  "times_sent c st = length (filter (\<lambda>x. x = c) (commands st))"

text \<open>
  The messages that the loop hands to the extractor for a sequence of identifiers, in
  the order of the identifiers: those that \<^verbatim>\<open>_fetch_email_data\<close> returns and that are
  true. An identifier whose fetch fails contributes nothing.
\<close>

definition fetched :: "mailbox \<Rightarrow> email_id list \<Rightarrow> message list" where
  "fetched mb email_ids =
     List.map_filter
       (\<lambda>email_id. case fetch_reply mb email_id of
                      None \<Rightarrow> None
                    | Some msg \<Rightarrow> if truthy msg then Some msg else None)
       email_ids"

text \<open>The links of a message whose extraction returns, and whether it returns.\<close>

definition links_of :: "library \<Rightarrow> message \<Rightarrow> string list" where
  "links_of lib msg =
     (case fst (extract_links_from_email lib msg idle) of
        Inr found \<Rightarrow> found
      | Inl e \<Rightarrow> [])"

definition extraction_returns :: "library \<Rightarrow> message \<Rightarrow> bool" where
  "extraction_returns lib msg =
     (case fst (extract_links_from_email lib msg idle) of
        Inr found \<Rightarrow> True
      | Inl e \<Rightarrow> False)"

section \<open>Visiting the links\<close>

text \<open>
  The network is what \<^verbatim>\<open>requests\<close> and \<^verbatim>\<open>urllib3\<close> meet when the program calls
  \<^verbatim>\<open>self.session.get(link, timeout=10)\<close>.

  A string is first looked at as a URL, the link itself when it is prepared and the
  target of a redirect when it is followed: \<open>url_kind\<close> takes the number of redirects
  followed so far and the string.
  \<^item> \<open>Sendable\<close>: a request goes out.
  \<^item> \<open>Rejected\<close>: \<^verbatim>\<open>requests\<close> raises \<^verbatim>\<open>MissingSchema\<close>, \<^verbatim>\<open>InvalidSchema\<close> or
    \<^verbatim>\<open>InvalidURL\<close> before any request, all of them \<^verbatim>\<open>RequestException\<close>.
  \<^item> \<open>Bad_label\<close>: the host has an empty or too long label; \<^verbatim>\<open>urllib3\<close> raises
    \<^verbatim>\<open>LocationParseError\<close> when it connects, which the adapter re-raises as it is. It is
    not a \<^verbatim>\<open>RequestException\<close>.

  A request is answered by a response or not at all (connection error, timeout). It is
  a function of the number of requests sent before and of the URL, so a server may
  answer differently each time. Of a response the libraries read
  \<^item> the status code;
  \<^item> the \<^verbatim>\<open>Retry-After\<close> header: absent, empty, a delay that parses (seconds or a
    date), or another value;
  \<^item> the \<^verbatim>\<open>Location\<close> header: absent or empty, a target (taken here as the absolute
    URL it resolves to), or bytes that are not UTF-8, on which
    \<^verbatim>\<open>get_redirect_target\<close> raises \<^verbatim>\<open>UnicodeDecodeError\<close>;
  \<^item> the body, which \<^verbatim>\<open>Session.send\<close> reads before it returns (\<^verbatim>\<open>r.content\<close>): it
    reads, or it is corrupt (\<^verbatim>\<open>ChunkedEncodingError\<close>, \<^verbatim>\<open>ContentDecodingError\<close>), or
    it times out (\<^verbatim>\<open>ConnectionError\<close>).
  Proxies, cookies, authentication and TLS are not modelled.
\<close>

datatype url_kind = Sendable | Rejected | Bad_label

datatype retry_after = No_header | Header_empty | Header_delay | Header_malformed

datatype location = No_location | Location string | Location_garbled

datatype body = Body_ok | Body_corrupt | Body_timeout

record response =
  status_code :: nat
  retry_after :: retry_after
  location :: location
  body :: body

datatype reply = Response response | No_response

record network =
  url_kind :: "nat \<Rightarrow> string \<Rightarrow> url_kind"
  reply :: "nat \<Rightarrow> string \<Rightarrow> reply"

text \<open>
  What leaves \<^verbatim>\<open>session.get\<close>: a \<^verbatim>\<open>requests.RequestException\<close>, or an exception of
  another class.
\<close>

datatype http_error =
    RequestException request_exception
  | LocationParseError
  | Location_UnicodeDecodeError

text \<open>
  \<^verbatim>\<open>
  def _setup_session(self, retries, backoff_factor):
      session = requests.Session()
      retry_strategy = Retry(total=retries, backoff_factor=backoff_factor,
                             status_forcelist=[429, 500, 502, 503, 504])
      adapter = HTTPAdapter(max_retries=retry_strategy)
      session.mount("https://", adapter)
      session.mount("http://", adapter)
      return session
  \<close>
  The session is its \<^verbatim>\<open>Retry\<close> object. \<^verbatim>\<open>backoff_factor\<close> sets the time slept between
  two attempts and nothing else; time is not part of the state, so the field is left
  out. All other parameters of \<^verbatim>\<open>Retry\<close> and of the session keep their defaults:
  \<^verbatim>\<open>raise_on_status=True\<close>, \<^verbatim>\<open>respect_retry_after_header=True\<close>, \<^verbatim>\<open>GET\<close> is a method
  that may be retried, \<^verbatim>\<open>allow_redirects=True\<close>, \<^verbatim>\<open>max_redirects=30\<close>,
  \<^verbatim>\<open>stream=False\<close>.
\<close>

record retry =
  retry_total :: int
  status_forcelist :: "nat list"

definition setup_session :: "int \<Rightarrow> retry" where
  "setup_session retries =
     \<lparr>retry_total = retries, status_forcelist = [429, 500, 502, 503, 504]\<rparr>"

text \<open>
  The rule of \<^verbatim>\<open>urllib3.util.retry.Retry\<close>, as the adapter applies it in \<^verbatim>\<open>urlopen\<close>:
  \<^verbatim>\<open>
  RETRY_AFTER_STATUS_CODES = frozenset([413, 429, 503])

  def is_retry(self, method, status_code, has_retry_after=False):
      if self.status_forcelist and status_code in self.status_forcelist:
          return True
      return (self.total and self.respect_retry_after_header
              and has_retry_after
              and (status_code in self.RETRY_AFTER_STATUS_CODES))

  def increment(...):        # total -= 1; raises MaxRetryError if is_exhausted()
  def is_exhausted(self):    # total < 0
  def sleep(self, response=None):   # parses Retry-After when the header is there:
                                    # raises InvalidHeader if it does not parse
  \<close>
  In \<^verbatim>\<open>urlopen\<close>, \<^verbatim>\<open>has_retry_after\<close> is \<^verbatim>\<open>bool(response.headers.get("Retry-After"))\<close>,
  false for an empty value; \<^verbatim>\<open>sleep\<close> parses whatever value is there, the empty one
  too.
\<close>

definition RETRY_AFTER_STATUS_CODES :: "nat list" where
  "RETRY_AFTER_STATUS_CODES = [413, 429, 503]"

definition has_retry_after :: "response \<Rightarrow> bool" where
  "has_retry_after resp =
     (retry_after resp = Header_delay \<or> retry_after resp = Header_malformed)"

definition retry_after_parses :: "response \<Rightarrow> bool" where
  "retry_after_parses resp =
     (retry_after resp = No_header \<or> retry_after resp = Header_delay)"

definition is_retry :: "retry \<Rightarrow> nat \<Rightarrow> bool \<Rightarrow> bool" where
  "is_retry r status has_header =
     (if status \<in> set (status_forcelist r) then True
      else retry_total r \<noteq> 0 \<and> has_header \<and> status \<in> set RETRY_AFTER_STATUS_CODES)"

definition increment :: "retry \<Rightarrow> retry" where
  "increment r = r\<lparr>retry_total := retry_total r - 1\<rparr>"

definition is_exhausted :: "retry \<Rightarrow> bool" where
  "is_exhausted r = (retry_total r < 0)"

text \<open>
  \<^verbatim>\<open>HTTPAdapter.send\<close> around \<^verbatim>\<open>urlopen\<close>: one request, then, while the rule asks for it
  and the count is not exhausted, another one. When the count is exhausted the adapter
  raises: \<^verbatim>\<open>RetryError\<close> after a response with a retried status (\<^verbatim>\<open>raise_on_status\<close>),
  \<^verbatim>\<open>ConnectionError\<close> after a request without response. Before it sends again after a
  response, \<^verbatim>\<open>sleep\<close> parses the \<^verbatim>\<open>Retry-After\<close> header, and the adapter turns its
  \<^verbatim>\<open>InvalidHeader\<close> into the one of \<^verbatim>\<open>requests\<close>. Otherwise the call returns the
  response.
\<close>

function adapter_send ::
  "network \<Rightarrow> retry \<Rightarrow> string \<Rightarrow> state \<Rightarrow> (http_error + response) \<times> state" where
  "adapter_send net r url st =
     (let st1 = st\<lparr>requests := Suc (requests st)\<rparr>
      in case reply net (requests st) url of
           No_response \<Rightarrow>
             (if is_exhausted (increment r)
              then (Inl (RequestException ConnectionError), st1)
              else adapter_send net (increment r) url st1)
         | Response resp \<Rightarrow>
             (if is_retry r (status_code resp) (has_retry_after resp)
              then (if is_exhausted (increment r)
                    then (Inl (RequestException RetryError), st1)
                    else if \<not> retry_after_parses resp
                    then (Inl (RequestException InvalidHeader), st1)
                    else adapter_send net (increment r) url st1)
              else (Inr resp, st1)))"
  by pat_completeness auto
termination
  by (relation "measure (\<lambda>(net, r, url, st). nat (retry_total r))")
     (auto simp: is_exhausted_def increment_def)

declare adapter_send.simps [simp del]

text \<open>
  \<^verbatim>\<open>Session.send\<close> with \<^verbatim>\<open>resolve_redirects\<close>. A response is a redirect when its status
  is one of \<^verbatim>\<open>REDIRECT_STATI\<close> and it has a \<^verbatim>\<open>Location\<close> header. A redirect is followed
  with a fresh count of retries, up to \<^verbatim>\<open>max_redirects\<close> times; its body is read first,
  where a corrupt body is passed over and a timeout is not. The body of a response that
  is not a redirect is read before the call returns, and an error of that read leaves
  the call.
\<close>

definition REDIRECT_STATI :: "nat list" where
  "REDIRECT_STATI = [301, 302, 303, 307, 308]"

definition max_redirects :: nat where
  "max_redirects = 30"

definition is_redirect :: "response \<Rightarrow> bool" where
  "is_redirect resp =
     (location resp \<noteq> No_location \<and> status_code resp \<in> set REDIRECT_STATI)"

function session_send ::
  "network \<Rightarrow> retry \<Rightarrow> string \<Rightarrow> nat \<Rightarrow> state \<Rightarrow> (http_error + nat) \<times> state" where
  "session_send net r url followed st =
     (case url_kind net followed url of
        Rejected \<Rightarrow> (Inl (RequestException InvalidURL), st)
      | Bad_label \<Rightarrow> (Inl LocationParseError, st)
      | Sendable \<Rightarrow>
          (case adapter_send net r url st of
             (Inl e, st1) \<Rightarrow> (Inl e, st1)
           | (Inr resp, st1) \<Rightarrow>
               (if is_redirect resp
                then (case location resp of
                        Location target \<Rightarrow>
                          (if body resp = Body_timeout
                           then (Inl (RequestException ConnectionError), st1)
                           else if max_redirects \<le> followed
                           then (Inl (RequestException TooManyRedirects), st1)
                           else session_send net r target (Suc followed) st1)
                      | other \<Rightarrow> (Inl Location_UnicodeDecodeError, st1))
                else (case body resp of
                        Body_ok \<Rightarrow> (Inr (status_code resp), st1)
                      | Body_corrupt \<Rightarrow> (Inl (RequestException ChunkedEncodingError), st1)
                      | Body_timeout \<Rightarrow> (Inl (RequestException ConnectionError), st1)))))"
  by pat_completeness auto
termination
  by (relation "measure (\<lambda>(net, r, url, followed, st). Suc max_redirects - followed)") auto

declare session_send.simps [simp del]

definition session_get ::
  "network \<Rightarrow> retry \<Rightarrow> string \<Rightarrow> state \<Rightarrow> (http_error + nat) \<times> state" where
  "session_get net r link st = session_send net r link 0 st"

text \<open>
  \<^verbatim>\<open>
  def access_links(self, links):
      for link in links:
          try:
              response = self.session.get(link, timeout=10)
              if response.status_code == 200:
                  logging.info(f"Successfully accessed unsubscribe link: {link}")
              else:
                  logging.warning(f"Failed to access unsubscribe link: {link} (Status: ...)")
          except requests.RequestException as e:
              logging.error(f"Error accessing link {link}: {e}")
  \<close>
  The method returns nothing; the outcome of each link is the record it logs:
  \<open>Accessed\<close> (Success), \<open>Failed\<close> with the status (HTTPFailure), \<open>Errored\<close> (a
  \<^verbatim>\<open>RequestException\<close> was raised). An exception of another class is not caught: it
  ends the loop and leaves the method, here as \<open>Some\<close>.
\<close>

fun access_links ::
  "network \<Rightarrow> retry \<Rightarrow> string list \<Rightarrow> state \<Rightarrow> http_error option \<times> state" where
  "access_links net r [] st = (None, st)"
| "access_links net r (link # links) st =
     (case session_get net r link st of
        (Inr status, st1) \<Rightarrow>
          access_links net r links
            (st1\<lparr>log := log st1 @ [if status = 200 then Accessed link else Failed link status]\<rparr>)
      | (Inl (RequestException e), st1) \<Rightarrow>
          access_links net r links (st1\<lparr>log := log st1 @ [Errored link e]\<rparr>)
      | (Inl other, st1) \<Rightarrow> (Some other, st1))"




section \<open>A concrete library, mailbox, messages and networks\<close>

text \<open>
  The theorems below hold for every library, mailbox and network. To run the
  definitions, here is one of each. The decoder accepts ASCII and nothing else; on the
  payloads used below it does what the default codec (UTF-8) does, since they are
  either ASCII or hold the byte \<open>0xFF\<close>, which no UTF-8 text holds. The parser knows
  five pages, one of which it rejects, as \<^verbatim>\<open>html.parser\<close> does for its marked section.
\<close>

definition ascii_encode :: "string \<Rightarrow> bytes" where
  "ascii_encode s = map (\<lambda>c. of_nat (of_char c)) s"

definition latin1 :: "bytes \<Rightarrow> string" where
  "latin1 b = map (\<lambda>w. char_of (unat w)) b"

definition anchor :: "string \<Rightarrow> tag" where
  "anchor h = \<lparr>tag_name = ''a'', tag_attrs = [''href'' \<mapsto> h]\<rparr>"

definition page_unsub :: string where
  "page_unsub = ''<a href=https://x.com/unsubscribe?u=1>unsub</a>''"

definition page_stay :: string where
  "page_stay = ''<a href=https://x.com/stay>keep</a>''"

definition page_stop :: string where
  "page_stop = ''<a name=top>x</a><a href=https://x.com/UNSUBSCRIBE>stop</a>''"

definition page_mixed :: string where
  "page_mixed = ''<p><a href=/Unsubscribe/me>a</a><a href>b</a><b href=/unsubscribe>c</b></p>''"

definition page_rejected :: string where
  "page_rejected = ''<![foo]><a href=/unsubscribe>x</a>''"

definition tags_mixed :: "tag list" where
  "tags_mixed =
     [\<lparr>tag_name = ''p'', tag_attrs = Map.empty\<rparr>,
      anchor ''/Unsubscribe/me'',
      anchor [],
      \<lparr>tag_name = ''b'', tag_attrs = [''href'' \<mapsto> ''/unsubscribe'']\<rparr>]"

definition example_tags :: "string \<Rightarrow> tag list option" where
  "example_tags s =
     (if s = page_unsub then Some [anchor ''https://x.com/unsubscribe?u=1'']
      else if s = page_stay then Some [anchor ''https://x.com/stay'']
      else if s = page_stop
      then Some [\<lparr>tag_name = ''a'', tag_attrs = [''name'' \<mapsto> ''top'']\<rparr>,
                 anchor ''https://x.com/UNSUBSCRIBE'']
      else if s = page_mixed then Some tags_mixed
      else if s = page_rejected then None
      else Some [])"

definition example_library :: library where
  "example_library =
     \<lparr>bytes_decode = (\<lambda>b. if list_all (\<lambda>w. w < 0x80) b then Some (latin1 b) else None),
      BeautifulSoup = (\<lambda>m. case m of Text s \<Rightarrow> example_tags s | Raw b \<Rightarrow> example_tags (latin1 b))\<rparr>"

text \<open>A leaf with one header line and a well-formed transfer encoding.\<close>

definition part :: "string \<Rightarrow> bytes \<Rightarrow> leaf" where
  "part ct p =
     \<lparr>headers = 1, content_type = ct, payload = p, decode_defects = [], defects = []\<rparr>"

definition message_101 :: message where
  "message_101 = Leaf (part ''text/html'' (ascii_encode page_unsub))"

definition parts_102 :: "message list" where
  "parts_102 =
     [Leaf (part ''text/plain'' [0xFF]),
      Container [Leaf (part ''text/html'' (ascii_encode page_stay)),
                 Leaf (part ''text/html'' (ascii_encode page_stop))]]"

definition message_102 :: message where
  "message_102 = Container parts_102"

text \<open>
  A multi-part message whose first HTML part the parser rejects, and one whose HTML
  part is base64 with a padding that is not right.
\<close>

definition parts_104 :: "message list" where
  "parts_104 =
     [Leaf (part ''text/html'' (ascii_encode page_rejected)),
      Leaf (part ''text/html'' (ascii_encode page_stop))]"

definition message_104 :: message where
  "message_104 = Container parts_104"


text \<open>A single part in another encoding than the default codec reads.\<close>

definition message_7 :: message where
  "message_7 = Leaf (part ''text/plain'' [0xFF])"

definition example_mailbox :: mailbox where
  "example_mailbox =
     \<lparr>search_reply = Inr [''101'', ''103'', ''102''],
      fetch_reply = (\<lambda>email_id. if email_id = ''101'' then Some message_101
                                else if email_id = ''102'' then Some message_102
                                else None),
      logout_reply = None\<rparr>"

definition broken_mailbox :: mailbox where
  "broken_mailbox =
     \<lparr>search_reply = Inr [''6'', ''7'', ''8''],
      fetch_reply = (\<lambda>email_id. if email_id = ''7'' then Some message_7
                                else if email_id = ''8'' then Some message_101
                                else None),
      logout_reply = None\<rparr>"

text \<open>
  Networks. A string is sendable when it starts with \<open>http://\<close> or \<open>https://\<close>,
  except the one with an empty host label; anything else is rejected.
\<close>

definition unsubscribe_url :: string where
  "unsubscribe_url = ''https://x.com/unsubscribe''"

definition done_url :: string where
  "done_url = ''https://x.com/done''"

definition bad_label_url :: string where
  "bad_label_url = ''http://a..b/unsubscribe''"

definition example_kind :: "nat \<Rightarrow> string \<Rightarrow> url_kind" where
  "example_kind followed url =
     (if url = bad_label_url then Bad_label
      else if prefix ''http://'' url \<or> prefix ''https://'' url then Sendable
      else Rejected)"

definition plain :: "nat \<Rightarrow> response" where
  "plain status =
     \<lparr>status_code = status, retry_after = No_header, location = No_location, body = Body_ok\<rparr>"

text \<open>A network on which every request gets the same reply.\<close>

definition always :: "reply \<Rightarrow> network" where
  "always rep = \<lparr>url_kind = example_kind, reply = (\<lambda>n url. rep)\<rparr>"

text \<open>A network on which one URL redirects to another, which answers 200.\<close>

definition moved :: network where
  "moved =
     \<lparr>url_kind = example_kind,
      reply = (\<lambda>n url. if url = unsubscribe_url
                        then Response ((plain 302)\<lparr>location := Location done_url\<rparr>)
                        else Response (plain 200))\<rparr>"

section \<open>Properties of the HTML scan\<close>

lemma unsubscribe_not_in_empty: "sublist ''unsubscribe'' (lower h) \<Longrightarrow> h \<noteq> []"
  by (auto simp: lower_def)

lemma scan_is_filter:
  "[href. link \<leftarrow> find_all soup ''a'' ''href'',
          Some href \<leftarrow> [tag_attrs link ''href''],
          sublist ''unsubscribe'' (lower href)] = unsubscribe_hrefs soup"
  by (induction soup)
     (auto simp: find_all_def unsubscribe_hrefs_def is_unsubscribe_anchor_def
           dest: unsubscribe_not_in_empty split: option.splits)

lemma unsubscribe_hrefs_contain:
  "list_all (\<lambda>h. h \<noteq> [] \<and> sublist ''unsubscribe'' (lower h)) (unsubscribe_hrefs soup)"
  by (auto simp: unsubscribe_hrefs_def is_unsubscribe_anchor_def list_all_iff
           split: option.splits)

lemma parse_ignores_decoder:
  "parse_html_for_links (lib\<lparr>bytes_decode := d\<rparr>) html_content =
     parse_html_for_links lib html_content"
  by (simp add: parse_html_for_links_def)

lemma parse_accepted:
  "accepts lib html_content \<Longrightarrow>
     parse_html_for_links lib html_content = Inr (links_in lib html_content)"
  by (auto simp: accepts_def links_in_def parse_html_for_links_def)

lemma parse_rejected:
  "\<not> accepts lib html_content \<Longrightarrow>
     parse_html_for_links lib html_content = Inl ParserRejectedMarkup"
  by (simp add: accepts_def parse_html_for_links_def)

text \<open>Facts of the concrete library.\<close>

lemma latin1_ascii_encode: "latin1 (ascii_encode s) = s"
  by (induction s) (simp_all add: latin1_def ascii_encode_def unat_of_nat)

lemma example_soup_Raw: "BeautifulSoup example_library (Raw (ascii_encode s)) = example_tags s"
  by (simp add: example_library_def latin1_ascii_encode)

lemma example_soup_Text: "BeautifulSoup example_library (Text s) = example_tags s"
  by (simp add: example_library_def)

lemmas pages = page_unsub_def page_stay_def page_stop_def page_mixed_def page_rejected_def

lemmas scan_simps =
  parse_html_for_links_def find_all_def anchor_def lower_def lower_char_def sublist_Cons_right

lemma example_links_unsub:
  "parse_html_for_links example_library (Raw (ascii_encode page_unsub)) =
     Inr [''https://x.com/unsubscribe?u=1'']"
  "parse_html_for_links example_library (Text page_unsub) =
     Inr [''https://x.com/unsubscribe?u=1'']"
  by (simp_all add: example_soup_Raw example_soup_Text example_tags_def pages scan_simps)

lemma example_links_stay:
  "parse_html_for_links example_library (Raw (ascii_encode page_stay)) = Inr []"
  by (simp add: example_soup_Raw example_tags_def pages scan_simps)

lemma example_links_stop:
  "parse_html_for_links example_library (Raw (ascii_encode page_stop)) =
     Inr [''https://x.com/UNSUBSCRIBE'']"
  by (simp add: example_soup_Raw example_tags_def pages scan_simps)

lemma example_links_rejected:
  "parse_html_for_links example_library (Raw (ascii_encode page_rejected)) =
     Inl ParserRejectedMarkup"
  "parse_html_for_links example_library (Text page_rejected) = Inl ParserRejectedMarkup"
  by (simp_all add: example_soup_Raw example_soup_Text example_tags_def pages scan_simps)

lemma example_tags_mixed:
  "BeautifulSoup example_library (Text page_mixed) = Some tags_mixed"
  by (simp add: example_soup_Text example_tags_def pages)

lemma example_hrefs_mixed: "unsubscribe_hrefs tags_mixed = [''/Unsubscribe/me'']"
  by (simp add: unsubscribe_hrefs_def is_unsubscribe_anchor_def tags_mixed_def anchor_def
        lower_def lower_char_def sublist_Cons_right)

lemma example_tags_rejected: "BeautifulSoup example_library (Text page_rejected) = None"
  by (simp add: example_soup_Text example_tags_def pages)

lemma example_decode_0xFF: "bytes_decode example_library [0xFF] = None"
  by (simp add: example_library_def)

lemma example_decode_unsub:
  "bytes_decode example_library (ascii_encode page_unsub) = Some page_unsub"
proof -
  have "list_all (\<lambda>w. w < 0x80) (ascii_encode page_unsub)"
    by code_simp
  then show ?thesis
    by (simp add: example_library_def latin1_ascii_encode)
qed

text \<open>
  Claim C2, as amended. For every HTML document that the parser accepts, link
  extraction returns exactly the href values of the anchor elements that have a
  non-empty href attribute whose lowercase form contains \<open>unsubscribe\<close>, in document
  order; every value returned is non-empty and contains the word, so an anchor without
  href, or whose href lacks the word, is never returned. For a document that the parser
  rejects nothing is returned: \<open>ParserRejectedMarkup\<close> leaves the method. (The claim as
  stated promises the list for every document.)
\<close>

theorem parse_html_for_links_unsubscribe_anchors:
  "(BeautifulSoup lib html_content = Some soup \<longrightarrow>
      parse_html_for_links lib html_content = Inr (unsubscribe_hrefs soup) \<and>
      list_all (\<lambda>h. h \<noteq> [] \<and> sublist ''unsubscribe'' (lower h)) (unsubscribe_hrefs soup)) \<and>
   (BeautifulSoup lib html_content = None \<longrightarrow>
      parse_html_for_links lib html_content = Inl ParserRejectedMarkup)"
  by (auto simp: parse_html_for_links_def unsubscribe_hrefs_contain scan_is_filter [simplified])

theorem parse_html_for_links_unsubscribe_anchors_witness:
  "BeautifulSoup example_library (Text page_mixed) = Some tags_mixed \<and>
   parse_html_for_links example_library (Text page_mixed) = Inr [''/Unsubscribe/me''] \<and>
   BeautifulSoup example_library (Text page_rejected) = None \<and>
   parse_html_for_links example_library (Text page_rejected) = Inl ParserRejectedMarkup"
  using parse_html_for_links_unsubscribe_anchors
          [where lib = example_library and html_content = "Text page_mixed"
             and soup = tags_mixed]
        parse_html_for_links_unsubscribe_anchors
          [where lib = example_library and html_content = "Text page_rejected"]
  by (simp add: example_tags_mixed example_tags_rejected example_hrefs_mixed)

theorem rejected_document_counterexample:
  "parse_html_for_links example_library (Text page_rejected) = Inl ParserRejectedMarkup"
  by (rule example_links_rejected)

section \<open>Properties of the extraction\<close>

lemma extract_parts_append:
  "extract_parts lib (xs @ ys) acc =
     (case extract_parts lib xs acc of
        Inl e \<Rightarrow> Inl e
      | Inr found \<Rightarrow> extract_parts lib ys found)"
  by (induction lib xs acc rule: extract_parts.induct) (auto split: sum.splits)

lemma extract_walk_follows_walk:
  "fst (extract_walk lib m acc) = extract_parts lib (walk m) acc"
  "fst (extract_walks lib ps acc) = extract_parts lib (concat (map walk ps)) acc"
  by (induction lib m acc and lib ps acc rule: extract_walk_extract_walks.induct)
     (auto simp: extract_parts_append get_payload_decode_def split: sum.splits prod.splits)

lemma own_html_walk: "concat (map own_html (walk m)) = html_leaves m"
proof (induction m)
  case (Leaf l)
  show ?case by simp
next
  case (Container ps)
  then have "concat (map own_html (concat (map walk ps))) = concat (map html_leaves ps)"
    by (induction ps) simp_all
  then show ?case by simp
qed

lemma extract_parts_accepted:
  "list_all (\<lambda>p. accepts lib (Raw p)) (concat (map own_html parts)) \<Longrightarrow>
     extract_parts lib parts acc =
       Inr (acc @ concat (map (\<lambda>p. links_in lib (Raw p)) (concat (map own_html parts))))"
  by (induction lib parts acc rule: extract_parts.induct) (auto simp: parse_accepted)

lemma extract_parts_rejected:
  "\<not> list_all (\<lambda>p. accepts lib (Raw p)) (concat (map own_html parts)) \<Longrightarrow>
     extract_parts lib parts acc = Inl ParserRejectedMarkup"
  by (induction lib parts acc rule: extract_parts.induct)
     (auto simp: accepts_def parse_html_for_links_def split: sum.splits option.splits)

lemma extract_parts_ignores_decoder:
  "extract_parts (lib\<lparr>bytes_decode := d\<rparr>) parts acc = extract_parts lib parts acc"
proof (induction parts arbitrary: acc)
  case Nil
  show ?case by simp
next
  case (Cons m ms)
  then show ?case by (cases m) (simp_all add: parse_ignores_decoder split: sum.splits)
qed

lemma extract_walk_ignores_decoder:
  "extract_walk (lib\<lparr>bytes_decode := d\<rparr>) m acc = extract_walk lib m acc"
  "extract_walks (lib\<lparr>bytes_decode := d\<rparr>) ps acc = extract_walks lib ps acc"
  by (induction lib m acc and lib ps acc rule: extract_walk_extract_walks.induct)
     (auto simp: parse_ignores_decoder split: prod.splits sum.splits)

lemma extract_multipart_accepted:
  "list_all (\<lambda>p. accepts lib (Raw p)) (html_leaves (Container ps)) \<Longrightarrow>
     fst (extract_links_from_email lib (Container ps) st) =
       Inr (concat (map (\<lambda>p. links_in lib (Raw p)) (html_leaves (Container ps))))"
  using extract_parts_accepted [of lib "walk (Container ps)" "[]"]
    extract_walk_follows_walk(1) [of lib "Container ps" "[]"]
  by (simp only: own_html_walk extract_links_from_email.simps split: prod.splits) auto

lemma extract_multipart_rejected:
  "\<not> list_all (\<lambda>p. accepts lib (Raw p)) (html_leaves (Container ps)) \<Longrightarrow>
     fst (extract_links_from_email lib (Container ps) st) = Inl ParserRejectedMarkup"
  using extract_parts_rejected [of lib "walk (Container ps)" "[]"]
    extract_walk_follows_walk(1) [of lib "Container ps" "[]"]
  by (simp only: own_html_walk extract_links_from_email.simps split: prod.splits) auto

lemma extract_keeps_state: "snd (snd (extract_links_from_email lib msg st)) = st"
  by (cases msg) (simp_all add: get_payload_decode_def split: option.splits prod.splits)

lemma extract_any_state:
  "fst (extract_links_from_email lib msg st') = fst (extract_links_from_email lib msg st)"
  by (cases msg) (simp_all add: get_payload_decode_def split: option.splits prod.splits)









lemma example_extract_101:
  "fst (extract_links_from_email example_library message_101 idle) =
     Inr [''https://x.com/unsubscribe?u=1'']"
  by (simp add: message_101_def part_def get_payload_decode_def example_decode_unsub
        example_links_unsub)

lemma example_extract_102:
  "fst (extract_links_from_email example_library message_102 idle) =
     Inr [''https://x.com/UNSUBSCRIBE'']"
  by (simp add: message_102_def parts_102_def part_def get_payload_decode_def
        example_links_stay example_links_stop)

lemma example_extract_104:
  "fst (extract_links_from_email example_library message_104 idle) = Inl ParserRejectedMarkup"
  by (simp add: message_104_def parts_104_def part_def get_payload_decode_def
        example_links_rejected)

lemma example_extract_7:
  "fst (extract_links_from_email example_library message_7 idle) = Inl UnicodeDecodeError"
  by (simp add: message_7_def part_def get_payload_decode_def example_decode_0xFF)

lemma example_accepts:
  "accepts example_library (Raw (ascii_encode page_stay))"
  "accepts example_library (Raw (ascii_encode page_stop))"
  "\<not> accepts example_library (Raw (ascii_encode page_rejected))"
  by (simp_all add: accepts_def example_soup_Raw example_tags_def pages)

lemma example_links_in:
  "links_in example_library (Raw (ascii_encode page_stay)) = []"
  "links_in example_library (Raw (ascii_encode page_stop)) = [''https://x.com/UNSUBSCRIBE'']"
  by (simp_all add: links_in_def example_links_stay example_links_stop)

text \<open>
  Claim C3, as amended. In a multi-part message the extractor decodes no payload to
  text, so bytes that do not decode never abort it: its outcome and what it does to the
  message are the same whatever the decoder does, even one that fails on every payload.
  When the parser accepts every \<open>text/html\<close> part, extraction returns and the links
  of each \<open>text/html\<close> part are in the result. No part is skipped on a failure: when
  the parser rejects a \<open>text/html\<close> part, extraction raises \<open>ParserRejectedMarkup\<close>.
  (The claim as stated, that a part that fails is skipped and never aborts the
  extraction of the message, does not hold; the single-part branch raises too.)
\<close>

theorem multipart_extraction_needs_no_decoding:
  "extract_links_from_email (lib\<lparr>bytes_decode := d\<rparr>) (Container ps) st =
     extract_links_from_email lib (Container ps) st \<and>
   (list_all (\<lambda>p. accepts lib (Raw p)) (html_leaves (Container ps)) \<longrightarrow>
      extraction_returns lib (Container ps) \<and>
      list_all (\<lambda>p. set (links_in lib (Raw p)) \<subseteq> set (links_of lib (Container ps)))
        (html_leaves (Container ps))) \<and>
   (\<not> list_all (\<lambda>p. accepts lib (Raw p)) (html_leaves (Container ps)) \<longrightarrow>
      fst (extract_links_from_email lib (Container ps) st) = Inl ParserRejectedMarkup)"
proof (intro conjI impI)
  show "extract_links_from_email (lib\<lparr>bytes_decode := d\<rparr>) (Container ps) st =
     extract_links_from_email lib (Container ps) st"
    by (simp only: extract_links_from_email.simps extract_walk_ignores_decoder)
next
  assume a: "list_all (\<lambda>p. accepts lib (Raw p)) (html_leaves (Container ps))"
  note r = extract_multipart_accepted [OF a, of idle]
  from r show "extraction_returns lib (Container ps)"
    by (simp add: extraction_returns_def)
  from r have "links_of lib (Container ps) =
      concat (map (\<lambda>p. links_in lib (Raw p)) (html_leaves (Container ps)))"
    by (simp add: links_of_def)
  then show "list_all (\<lambda>p. set (links_in lib (Raw p)) \<subseteq> set (links_of lib (Container ps)))
        (html_leaves (Container ps))"
    by (auto simp: list_all_iff)
next
  assume "\<not> list_all (\<lambda>p. accepts lib (Raw p)) (html_leaves (Container ps))"
  then show "fst (extract_links_from_email lib (Container ps) st) = Inl ParserRejectedMarkup"
    by (rule extract_multipart_rejected)
qed

theorem multipart_extraction_needs_no_decoding_witness:
  "extract_links_from_email (example_library\<lparr>bytes_decode := \<lambda>b. None\<rparr>) message_102 idle =
     extract_links_from_email example_library message_102 idle \<and>
   list_all (\<lambda>p. accepts example_library (Raw p)) (html_leaves message_102) \<and>
   extraction_returns example_library message_102 \<and>
   set (links_in example_library (Raw (ascii_encode page_stop)))
     \<subseteq> set (links_of example_library message_102) \<and>
   \<not> list_all (\<lambda>p. accepts example_library (Raw p)) (html_leaves message_104) \<and>
   fst (extract_links_from_email example_library message_104 idle) = Inl ParserRejectedMarkup"
proof -
  have a: "list_all (\<lambda>p. accepts example_library (Raw p)) (html_leaves (Container parts_102))"
    by (simp add: parts_102_def part_def example_accepts)
  have b: "\<not> list_all (\<lambda>p. accepts example_library (Raw p)) (html_leaves (Container parts_104))"
    by (simp add: parts_104_def part_def example_accepts)
  from a b
    multipart_extraction_needs_no_decoding
      [where lib = example_library and d = "\<lambda>b. None" and ps = parts_102 and st = idle]
    multipart_extraction_needs_no_decoding
      [where lib = example_library and d = "\<lambda>b. None" and ps = parts_104 and st = idle]
  show ?thesis
    by (simp add: message_102_def message_104_def)
       (simp add: parts_102_def part_def)
qed

theorem decode_failure_aborts_single_part_counterexample:
  "bytes_decode example_library [0xFF] = None \<and>
   fst (extract_links_from_email example_library (Leaf (part ''text/html'' [0xFF])) idle) =
     Inl UnicodeDecodeError \<and>
   fst (extract_links_from_email example_library message_104 idle) = Inl ParserRejectedMarkup"
  by (simp add: example_decode_0xFF example_extract_104 part_def get_payload_decode_def)

text \<open>
  Claim C8, as amended. For every multi-part message, nested to any depth, in which the
  parser accepts the payload of every leaf part whose content type is exactly
  \<open>text/html\<close>, extraction returns the links of all these parts, in the order of the
  parts. A multi-part message with no such part yields the empty sequence, and so does
  a single-part message of another content type whose payload decodes. (The claim as
  stated promises the links of every HTML leaf of every multi-part message, and the
  empty sequence for every message without HTML part.)
\<close>

theorem extraction_harvests_every_html_leaf:
  "(list_all (\<lambda>p. accepts lib (Raw p)) (html_leaves (Container ps)) \<longrightarrow>
      fst (extract_links_from_email lib (Container ps) st) =
        Inr (concat (map (\<lambda>p. links_in lib (Raw p)) (html_leaves (Container ps))))) \<and>
   (html_leaves (Container ps) = [] \<longrightarrow>
      fst (extract_links_from_email lib (Container ps) st) = Inr []) \<and>
   (content_type l \<noteq> ''text/html'' \<longrightarrow> bytes_decode lib (payload l) = Some content \<longrightarrow>
      fst (extract_links_from_email lib (Leaf l) st) = Inr [])"
proof (intro conjI impI)
  show "fst (extract_links_from_email lib (Container ps) st) =
        Inr (concat (map (\<lambda>p. links_in lib (Raw p)) (html_leaves (Container ps))))"
    if "list_all (\<lambda>p. accepts lib (Raw p)) (html_leaves (Container ps))"
    using that by (rule extract_multipart_accepted)
  show "fst (extract_links_from_email lib (Container ps) st) = Inr []"
    if "html_leaves (Container ps) = []"
  proof -
    have "list_all (\<lambda>p. accepts lib (Raw p)) []"
      by simp
    with that have "list_all (\<lambda>p. accepts lib (Raw p)) (html_leaves (Container ps))"
      by (simp only:)
    from extract_multipart_accepted [OF this, of st] that show ?thesis
      by (simp only: list.map concat.simps)
  qed
  show "fst (extract_links_from_email lib (Leaf l) st) = Inr []"
    if "content_type l \<noteq> ''text/html''" and "bytes_decode lib (payload l) = Some content"
    using that by (simp add: get_payload_decode_def)
qed

theorem extraction_harvests_every_html_leaf_witness:
  "list_all (\<lambda>p. accepts example_library (Raw p)) (html_leaves message_102) \<and>
   fst (extract_links_from_email example_library message_102 idle) =
     Inr [''https://x.com/UNSUBSCRIBE''] \<and>
   html_leaves (Container [Leaf (part ''text/plain'' [0xFF])]) = [] \<and>
   fst (extract_links_from_email example_library
          (Container [Leaf (part ''text/plain'' [0xFF])]) idle) = Inr [] \<and>
   content_type (part ''text/plain'' (ascii_encode page_unsub)) \<noteq> ''text/html'' \<and>
   bytes_decode example_library (payload (part ''text/plain'' (ascii_encode page_unsub))) =
     Some page_unsub \<and>
   fst (extract_links_from_email example_library
          (Leaf (part ''text/plain'' (ascii_encode page_unsub))) idle) = Inr []"
proof -
  have a: "list_all (\<lambda>p. accepts example_library (Raw p)) (html_leaves (Container parts_102))"
    by (simp add: parts_102_def part_def example_accepts)
  have b: "html_leaves (Container [Leaf (part ''text/plain'' [0xFF])]) = []"
    by (simp add: part_def)
  have c: "content_type (part ''text/plain'' (ascii_encode page_unsub)) \<noteq> ''text/html''"
    and d: "bytes_decode example_library (payload (part ''text/plain'' (ascii_encode page_unsub)))
      = Some page_unsub"
    by (simp_all add: part_def example_decode_unsub)
  from a b c d
    extraction_harvests_every_html_leaf
      [where lib = example_library and ps = parts_102 and st = idle]
    extraction_harvests_every_html_leaf
      [where lib = example_library and ps = "[Leaf (part ''text/plain'' [0xFF])]"
         and st = idle and l = "part ''text/plain'' (ascii_encode page_unsub)"
         and content = page_unsub]
  show ?thesis
    by (simp add: message_102_def) (simp add: parts_102_def part_def example_links_in)
qed

theorem no_html_part_yet_no_result_counterexample:
  "html_leaves message_7 = [] \<and>
   fst (extract_links_from_email example_library message_7 idle) = Inl UnicodeDecodeError \<and>
   html_leaves message_104 = [ascii_encode page_rejected, ascii_encode page_stop] \<and>
   fst (extract_links_from_email example_library message_104 idle) = Inl ParserRejectedMarkup"
  by (simp add: example_extract_7 example_extract_104)
     (simp add: message_7_def message_104_def parts_104_def part_def)




text \<open>
  Claim C10. For a single-part message the payload is decoded to text before the content
  type is looked at: when the bytes do not decode, extraction raises
  \<open>UnicodeDecodeError\<close> whatever the content type is, HTML or not; when they decode, the
  content type decides whether the text is scanned.
\<close>

theorem single_part_decodes_before_content_type:
  "(bytes_decode lib (payload l) = None \<longrightarrow>
      extract_links_from_email lib (Leaf l) st =
        (Inl UnicodeDecodeError, Leaf (snd (get_payload_decode l)), st)) \<and>
   (bytes_decode lib (payload l) = Some content \<longrightarrow>
      extract_links_from_email lib (Leaf l) st =
        (if content_type l = ''text/html'' then parse_html_for_links lib (Text content)
         else Inr [],
         Leaf (snd (get_payload_decode l)), st))"
  by (simp add: get_payload_decode_def)

theorem single_part_decodes_before_content_type_witness:
  "bytes_decode example_library (payload (part ''application/pdf'' [0xFF])) = None \<and>
   extract_links_from_email example_library (Leaf (part ''application/pdf'' [0xFF])) idle =
     (Inl UnicodeDecodeError, Leaf (part ''application/pdf'' [0xFF]), idle) \<and>
   bytes_decode example_library (payload (part ''text/html'' (ascii_encode page_unsub))) =
     Some page_unsub \<and>
   extract_links_from_email example_library message_101 idle =
     (Inr [''https://x.com/unsubscribe?u=1''], message_101, idle)"
proof -
  have a: "bytes_decode example_library (payload (part ''application/pdf'' [0xFF])) = None"
    and b: "bytes_decode example_library
      (payload (part ''text/html'' (ascii_encode page_unsub))) = Some page_unsub"
    by (simp_all add: part_def example_decode_0xFF example_decode_unsub)
  from a b
    single_part_decodes_before_content_type
      [where lib = example_library and l = "part ''application/pdf'' [0xFF]" and st = idle]
    single_part_decodes_before_content_type
      [where lib = example_library and l = "part ''text/html'' (ascii_encode page_unsub)"
         and st = idle and content = page_unsub]
  show ?thesis
    by (simp add: message_101_def get_payload_decode_def)
       (simp add: part_def example_links_unsub)
qed

section \<open>Properties of the mailbox scan\<close>

lemma scan_ids_failed:
  "fetch_reply mb i = None \<Longrightarrow>
     scan_ids lib mb (i # ids) acc st =
       scan_ids lib mb ids acc
         (st\<lparr>commands := commands st @ [Fetch i], log := log st @ [Fetch_failed i]\<rparr>)"
  by (simp add: fetch_email_data_def)

lemma scan_ids_false:
  "fetch_reply mb i = Some msg \<Longrightarrow> \<not> truthy msg \<Longrightarrow>
     scan_ids lib mb (i # ids) acc st =
       scan_ids lib mb ids acc (st\<lparr>commands := commands st @ [Fetch i]\<rparr>)"
  by (simp add: fetch_email_data_def)

lemma scan_ids_extracts:
  assumes "fetch_reply mb i = Some msg" and "truthy msg"
  shows "scan_ids lib mb (i # ids) acc st =
       (case fst (extract_links_from_email lib msg idle) of
          Inl e \<Rightarrow> (Inl e, st\<lparr>commands := commands st @ [Fetch i]\<rparr>)
        | Inr found \<Rightarrow>
            scan_ids lib mb ids (acc @ found) (st\<lparr>commands := commands st @ [Fetch i]\<rparr>))"
proof -
  let ?st1 = "st\<lparr>commands := commands st @ [Fetch i]\<rparr>"
  obtain out msg' st2 where e: "extract_links_from_email lib msg ?st1 = (out, msg', st2)"
    by (cases "extract_links_from_email lib msg ?st1")
  with extract_keeps_state [of lib msg ?st1] extract_any_state [of lib msg idle ?st1]
  have "st2 = ?st1" and "fst (extract_links_from_email lib msg idle) = out"
    by simp_all
  with e assms show ?thesis
    by (simp add: fetch_email_data_def split: sum.splits)
qed

lemma scan_ids_keeps_logout:
  "times_sent Logout (snd (scan_ids lib mb email_ids acc st)) = times_sent Logout st"
proof (induction email_ids arbitrary: acc st)
  case Nil
  show ?case by simp
next
  case (Cons i ids)
  show ?case
  proof (cases "fetch_reply mb i")
    case None
    show ?thesis
      by (simp only: scan_ids_failed [OF None] Cons) (simp add: times_sent_def)
  next
    case (Some msg)
    show ?thesis
    proof (cases "truthy msg")
      case False
      show ?thesis
        by (simp only: scan_ids_false [OF Some False] Cons) (simp add: times_sent_def)
    next
      case True
      show ?thesis
      proof (cases "fst (extract_links_from_email lib msg idle)")
        case (Inl err)
        then show ?thesis
          by (simp add: scan_ids_extracts [OF Some True] times_sent_def del: scan_ids.simps)
      next
        case (Inr found)
        then show ?thesis
          by (simp add: scan_ids_extracts [OF Some True] Cons del: scan_ids.simps)
             (simp add: times_sent_def)
      qed
    qed
  qed
qed

lemma try_block_keeps_logout:
  "times_sent Logout (snd (try_block lib mb st)) = times_sent Logout st"
proof (cases "search_reply mb")
  case (Inl err)
  then show ?thesis by (simp add: try_block_def times_sent_def)
next
  case (Inr ids)
  let ?st1 = "st\<lparr>commands := commands st @ [Search]\<rparr>"
  have "times_sent Logout (snd (scan_ids lib mb ids [] ?st1)) = times_sent Logout st"
    by (simp add: scan_ids_keeps_logout) (simp add: times_sent_def)
  with Inr show ?thesis
    by (cases "scan_ids lib mb ids [] ?st1")
       (auto simp: try_block_def times_sent_def split: sum.splits)
qed

text \<open>
  Claim C4. Every run of the mailbox scan sends \<open>Logout\<close> exactly once, as the last
  command of the run: whatever the search, the fetches and the extraction do, and
  whether the scan returns its links or an exception leaves it.
\<close>

theorem logout_exactly_once:
  "times_sent Logout (snd (find_unsubscribe_links lib mb st)) = Suc (times_sent Logout st) \<and>
   last (commands (snd (find_unsubscribe_links lib mb st))) = Logout"
proof -
  obtain outcome st1 where t: "try_block lib mb st = (outcome, st1)"
    by (cases "try_block lib mb st")
  with try_block_keeps_logout [of lib mb st]
  have "times_sent Logout st1 = times_sent Logout st" by simp
  with t show ?thesis
    by (simp add: find_unsubscribe_links_def times_sent_def Let_def split: option.splits)
qed

lemma idle_commands: "commands idle = []"
  by (simp add: idle_def)

lemma example_truthy: "truthy message_101" "truthy message_102" "truthy message_7"
  by (simp_all add: message_101_def message_102_def message_7_def part_def)

lemma example_fetches:
  "fetch_reply broken_mailbox ''6'' = None"
  "fetch_reply broken_mailbox ''7'' = Some message_7"
  "fetch_reply broken_mailbox ''8'' = Some message_101"
  "fetch_reply example_mailbox ''101'' = Some message_101"
  "fetch_reply example_mailbox ''103'' = None"
  "fetch_reply example_mailbox ''102'' = Some message_102"
  by (simp_all add: broken_mailbox_def example_mailbox_def)

lemma example_scan_aborted:
  "find_unsubscribe_links example_library broken_mailbox idle =
     (Inl UnicodeDecodeError,
      \<lparr>commands = [Search, Fetch ''6'', Fetch ''7'', Logout], requests = 0,
         log = [Fetch_failed ''6'', Logged_out]\<rparr>)"
proof -
  have "scan_ids example_library broken_mailbox [''6'', ''7'', ''8''] []
      (idle\<lparr>commands := commands idle @ [Search]\<rparr>) =
    (Inl UnicodeDecodeError,
     \<lparr>commands = [Search, Fetch ''6'', Fetch ''7''], requests = 0, log = [Fetch_failed ''6'']\<rparr>)"
    by (simp add: scan_ids_failed [OF example_fetches(1)]
          scan_ids_extracts [OF example_fetches(2) example_truthy(3)] example_extract_7
          del: scan_ids.simps)
       (simp add: idle_def)
  moreover have "search_reply broken_mailbox = Inr [''6'', ''7'', ''8'']"
    and "logout_reply broken_mailbox = None"
    by (simp_all add: broken_mailbox_def)
  ultimately show ?thesis
    by (simp add: find_unsubscribe_links_def try_block_def)
qed

lemma example_scan:
  "find_unsubscribe_links example_library example_mailbox idle =
     (Inr [''https://x.com/unsubscribe?u=1'', ''https://x.com/UNSUBSCRIBE''],
      \<lparr>commands = [Search, Fetch ''101'', Fetch ''103'', Fetch ''102'', Logout], requests = 0,
         log = [Fetch_failed ''103'', Total_found 2, Logged_out]\<rparr>)"
proof -
  have "scan_ids example_library example_mailbox [''101'', ''103'', ''102''] []
      (idle\<lparr>commands := commands idle @ [Search]\<rparr>) =
    (Inr [''https://x.com/unsubscribe?u=1'', ''https://x.com/UNSUBSCRIBE''],
     \<lparr>commands = [Search, Fetch ''101'', Fetch ''103'', Fetch ''102''], requests = 0,
        log = [Fetch_failed ''103'']\<rparr>)"
    by (simp add: scan_ids_failed [OF example_fetches(5)]
          scan_ids_extracts [OF example_fetches(4) example_truthy(1)]
          scan_ids_extracts [OF example_fetches(6) example_truthy(2)]
          example_extract_101 example_extract_102
          del: scan_ids.simps)
       (simp add: idle_def)
  moreover have "search_reply example_mailbox = Inr [''101'', ''103'', ''102'']"
    and "logout_reply example_mailbox = None"
    by (simp_all add: example_mailbox_def)
  ultimately show ?thesis
    by (simp add: find_unsubscribe_links_def try_block_def)
qed

theorem logout_exactly_once_witness:
  "fst (find_unsubscribe_links example_library broken_mailbox idle) = Inl UnicodeDecodeError \<and>
   times_sent Logout (snd (find_unsubscribe_links example_library broken_mailbox idle)) = 1 \<and>
   last (commands (snd (find_unsubscribe_links example_library broken_mailbox idle))) = Logout \<and>
   times_sent Logout (snd (find_unsubscribe_links example_library example_mailbox idle)) = 1"
  using logout_exactly_once [of example_library broken_mailbox idle]
    logout_exactly_once [of example_library example_mailbox idle]
  by (simp add: example_scan_aborted) (simp add: times_sent_def idle_def)

lemma fetched_Cons:
  "fetched mb (i # ids) =
     (case fetch_reply mb i of
        None \<Rightarrow> fetched mb ids
      | Some msg \<Rightarrow> if truthy msg then msg # fetched mb ids else fetched mb ids)"
  by (simp add: fetched_def List.map_filter_simps split: option.splits)

lemma fetched_Nil: "fetched mb [] = []"
  by (simp add: fetched_def List.map_filter_simps)

lemma fetched_append: "fetched mb (xs @ ys) = fetched mb xs @ fetched mb ys"
  by (induction xs) (simp_all add: fetched_Nil fetched_Cons split: option.splits)

lemma fetched_example:
  "fetched example_mailbox [''101'', ''103'', ''102''] = [message_101, message_102]"
  by (simp add: fetched_Cons fetched_Nil example_mailbox_def example_truthy)

lemma scan_ids_all_return:
  "list_all (extraction_returns lib) (fetched mb email_ids) \<Longrightarrow>
     fst (scan_ids lib mb email_ids acc st) =
       Inr (acc @ concat (map (links_of lib) (fetched mb email_ids))) \<and>
     commands (snd (scan_ids lib mb email_ids acc st)) = commands st @ map Fetch email_ids"
proof (induction email_ids arbitrary: acc st)
  case Nil
  show ?case by (simp add: fetched_Nil)
next
  case (Cons i ids)
  show ?case
  proof (cases "fetch_reply mb i")
    case None
    with Cons.prems have "list_all (extraction_returns lib) (fetched mb ids)"
      by (simp add: fetched_Cons)
    from Cons.IH [OF this] None show ?thesis
      by (simp add: scan_ids_failed fetched_Cons del: scan_ids.simps)
  next
    case (Some msg)
    show ?thesis
    proof (cases "truthy msg")
      case False
      with Some Cons.prems have "list_all (extraction_returns lib) (fetched mb ids)"
        by (simp add: fetched_Cons)
      from Cons.IH [OF this] Some False show ?thesis
        by (simp add: scan_ids_false fetched_Cons del: scan_ids.simps)
    next
      case True
      with Some Cons.prems have r: "extraction_returns lib msg"
        and rest: "list_all (extraction_returns lib) (fetched mb ids)"
        by (simp_all add: fetched_Cons)
      from r have "fst (extract_links_from_email lib msg idle) = Inr (links_of lib msg)"
        by (simp add: extraction_returns_def links_of_def split: sum.splits)
      with Cons.IH [OF rest] Some True show ?thesis
        by (simp add: scan_ids_extracts [OF Some True] fetched_Cons del: scan_ids.simps)
    qed
  qed
qed

lemma scan_ids_append:
  "scan_ids lib mb (xs @ ys) acc st =
     (case scan_ids lib mb xs acc st of
        (Inl e, st') \<Rightarrow> (Inl e, st')
      | (Inr found, st') \<Rightarrow> scan_ids lib mb ys found st')"
  by (induction xs arbitrary: acc st)
     (auto split: prod.splits sum.splits option.splits)

lemma scan_ids_raises:
  assumes "fetch_reply mb i = Some msg" and "truthy msg"
    and "fst (extract_links_from_email lib msg idle) = Inl e"
  shows "scan_ids lib mb (i # after) acc st = (Inl e, st\<lparr>commands := commands st @ [Fetch i]\<rparr>)"
  using assms(3) by (simp add: scan_ids_extracts [OF assms(1,2)] del: scan_ids.simps)

text \<open>
  Claim C5, as amended. Let the search return a sequence of identifiers and the logout
  succeed. If the extraction of each message handed to the extractor returns, then
  every identifier is fetched, in order, whether or not fetches before it failed, and
  the scan returns exactly the links of the messages that were fetched (and are true),
  in the order of their identifiers: an identifier whose fetch fails contributes
  nothing. If instead the extraction of a fetched message raises, after messages whose
  extraction returned, the exception leaves the scan and no later identifier is
  fetched. (The claim as stated promises the links whenever fetches fail.)
\<close>

theorem scan_skips_failed_fetches:
  assumes "search_reply mb = Inr email_ids"
    and "logout_reply mb = None"
  shows "(list_all (extraction_returns lib) (fetched mb email_ids) \<longrightarrow>
            fst (find_unsubscribe_links lib mb st) =
              Inr (concat (map (links_of lib) (fetched mb email_ids))) \<and>
            commands (snd (find_unsubscribe_links lib mb st)) =
              commands st @ Search # map Fetch email_ids @ [Logout]) \<and>
         (email_ids = before @ email_id # after \<longrightarrow>
          list_all (extraction_returns lib) (fetched mb before) \<longrightarrow>
          fetch_reply mb email_id = Some msg \<longrightarrow> truthy msg \<longrightarrow>
          fst (extract_links_from_email lib msg idle) = Inl e \<longrightarrow>
            fst (find_unsubscribe_links lib mb st) = Inl e \<and>
            commands (snd (find_unsubscribe_links lib mb st)) =
              commands st @ Search # map Fetch (before @ [email_id]) @ [Logout])"
proof (intro conjI impI)
  let ?st1 = "st\<lparr>commands := commands st @ [Search]\<rparr>"
  {
    assume r: "list_all (extraction_returns lib) (fetched mb email_ids)"
    obtain out st2 where s: "scan_ids lib mb email_ids [] ?st1 = (out, st2)"
      by (cases "scan_ids lib mb email_ids [] ?st1")
    with scan_ids_all_return [OF r, of "[]" ?st1]
    have "out = Inr (concat (map (links_of lib) (fetched mb email_ids)))"
      and "commands st2 = commands st @ Search # map Fetch email_ids"
      by simp_all
    with s assms
    show "fst (find_unsubscribe_links lib mb st) =
              Inr (concat (map (links_of lib) (fetched mb email_ids)))"
      and "commands (snd (find_unsubscribe_links lib mb st)) =
              commands st @ Search # map Fetch email_ids @ [Logout]"
      by (simp_all add: find_unsubscribe_links_def try_block_def Let_def)
  }
  {
    assume ids: "email_ids = before @ email_id # after"
      and r: "list_all (extraction_returns lib) (fetched mb before)"
      and f: "fetch_reply mb email_id = Some msg" and t: "truthy msg"
      and x: "fst (extract_links_from_email lib msg idle) = Inl e"
    obtain out st2 where s: "scan_ids lib mb before [] ?st1 = (out, st2)"
      by (cases "scan_ids lib mb before [] ?st1")
    with scan_ids_all_return [OF r, of "[]" ?st1]
    have o: "out = Inr (concat (map (links_of lib) (fetched mb before)))"
      and c: "commands st2 = commands st @ Search # map Fetch before"
      by simp_all
    have "scan_ids lib mb email_ids [] ?st1 =
        (Inl e, st2\<lparr>commands := commands st2 @ [Fetch email_id]\<rparr>)"
      using s o scan_ids_raises [OF f t x] by (simp add: ids scan_ids_append)
    with c assms
    show "fst (find_unsubscribe_links lib mb st) = Inl e"
      and "commands (snd (find_unsubscribe_links lib mb st)) =
              commands st @ Search # map Fetch (before @ [email_id]) @ [Logout]"
      by (simp_all add: find_unsubscribe_links_def try_block_def Let_def)
  }
qed

theorem scan_skips_failed_fetches_witness:
  "search_reply example_mailbox = Inr [''101'', ''103'', ''102''] \<and>
   logout_reply example_mailbox = None \<and>
   fetch_reply example_mailbox ''103'' = None \<and>
   list_all (extraction_returns example_library)
     (fetched example_mailbox [''101'', ''103'', ''102'']) \<and>
   fst (find_unsubscribe_links example_library example_mailbox idle) =
     Inr [''https://x.com/unsubscribe?u=1'', ''https://x.com/UNSUBSCRIBE''] \<and>
   commands (snd (find_unsubscribe_links example_library example_mailbox idle)) =
     [Search, Fetch ''101'', Fetch ''103'', Fetch ''102'', Logout] \<and>
   search_reply broken_mailbox = Inr ([''6''] @ ''7'' # [''8'']) \<and>
   list_all (extraction_returns example_library) (fetched broken_mailbox [''6'']) \<and>
   fetch_reply broken_mailbox ''7'' = Some message_7 \<and> truthy message_7 \<and>
   fst (find_unsubscribe_links example_library broken_mailbox idle) = Inl UnicodeDecodeError \<and>
   commands (snd (find_unsubscribe_links example_library broken_mailbox idle)) =
     [Search, Fetch ''6'', Fetch ''7'', Logout]"
proof -
  have s: "search_reply example_mailbox = Inr [''101'', ''103'', ''102'']"
    and l: "logout_reply example_mailbox = None"
    and f: "fetch_reply example_mailbox ''103'' = None"
    by (simp_all add: example_mailbox_def)
  have r: "list_all (extraction_returns example_library)
     (fetched example_mailbox [''101'', ''103'', ''102''])"
    by (simp add: fetched_example extraction_returns_def example_extract_101 example_extract_102)
  have s': "search_reply broken_mailbox = Inr ([''6''] @ ''7'' # [''8''])"
    and l': "logout_reply broken_mailbox = None"
    and f': "fetch_reply broken_mailbox ''7'' = Some message_7"
    by (simp_all add: broken_mailbox_def)
  have r': "list_all (extraction_returns example_library) (fetched broken_mailbox [''6''])"
    by (simp add: fetched_Cons fetched_Nil broken_mailbox_def)
  note a = scan_skips_failed_fetches [OF s l, where lib = example_library and st = idle]
  note b = scan_skips_failed_fetches [OF s' l', where lib = example_library and st = idle
      and before = "[''6'']" and email_id = "''7''" and after = "[''8'']"
      and msg = message_7 and e = UnicodeDecodeError]
  from a r have
    "fst (find_unsubscribe_links example_library example_mailbox idle) =
       Inr (concat (map (links_of example_library)
         (fetched example_mailbox [''101'', ''103'', ''102''])))"
    "commands (snd (find_unsubscribe_links example_library example_mailbox idle)) =
       commands idle @ Search # map Fetch [''101'', ''103'', ''102''] @ [Logout]"
    by blast+
  moreover from b r' f' example_truthy(3) example_extract_7 have
    "fst (find_unsubscribe_links example_library broken_mailbox idle) = Inl UnicodeDecodeError"
    "commands (snd (find_unsubscribe_links example_library broken_mailbox idle)) =
       commands idle @ Search # map Fetch ([''6''] @ [''7'']) @ [Logout]"
    by blast+
  ultimately show ?thesis
    using s l f r s' r' f' example_truthy(3)
    by (simp add: fetched_example links_of_def example_extract_101 example_extract_102
          idle_commands)
qed

theorem extraction_error_ends_scan_counterexample:
  "search_reply broken_mailbox = Inr [''6'', ''7'', ''8''] \<and>
   fetch_reply broken_mailbox ''6'' = None \<and>
   fetch_reply broken_mailbox ''8'' = Some message_101 \<and>
   find_unsubscribe_links example_library broken_mailbox idle =
     (Inl UnicodeDecodeError,
      \<lparr>commands = [Search, Fetch ''6'', Fetch ''7'', Logout], requests = 0,
         log = [Fetch_failed ''6'', Logged_out]\<rparr>)"
  by (simp add: example_scan_aborted) (simp add: broken_mailbox_def)

section \<open>Properties of the visits\<close>

lemma adapter_send_returns:
  "reply net (requests st) url = Response resp \<Longrightarrow>
   \<not> is_retry r (status_code resp) (has_retry_after resp) \<Longrightarrow>
     adapter_send net r url st = (Inr resp, st\<lparr>requests := Suc (requests st)\<rparr>)"
  by (simp add: adapter_send.simps)





lemma session_get_final:
  assumes "url_kind net 0 link = Sendable"
    and "reply net (requests st) link = Response resp"
    and "\<not> is_retry r (status_code resp) (has_retry_after resp)"
    and "\<not> is_redirect resp"
    and "body resp = Body_ok"
  shows "session_get net r link st =
           (Inr (status_code resp), st\<lparr>requests := Suc (requests st)\<rparr>)"
  using assms adapter_send_returns [OF assms(2,3)]
  by (simp add: session_get_def session_send.simps [of net r link 0 st])







lemmas visit_simps =
  session_get_def session_send.simps adapter_send.simps always_def example_kind_def
  unsubscribe_url_def done_url_def bad_label_url_def setup_session_def is_retry_def
  is_exhausted_def increment_def has_retry_after_def retry_after_parses_def
  RETRY_AFTER_STATUS_CODES_def is_redirect_def REDIRECT_STATI_def max_redirects_def plain_def
  idle_def








text \<open>
  Claim C7, as amended. For a sendable link whose response has a status outside the
  forced list \<open>429, 500, 502, 503, 504\<close>, is not a 413 with a \<^verbatim>\<open>Retry-After\<close> value, is
  not a redirect (a status of 301, 302, 303, 307 or 308 with a \<^verbatim>\<open>Location\<close> header) and
  has a body that reads, exactly one request is sent, and the outcome logged is the
  failure with that status, or success when the status is 200, and only then. (A 413
  with \<^verbatim>\<open>Retry-After\<close> is sent again while retries remain; a redirect is followed, and
  the outcome is that of its target.)
\<close>

theorem status_outside_forcelist_is_final:
  assumes "url_kind net 0 link = Sendable"
    and "reply net (requests st) link = Response resp"
    and "status_code resp \<notin> set (status_forcelist (setup_session retries))"
    and "\<not> (status_code resp = 413 \<and> has_retry_after resp)"
    and "\<not> is_redirect resp"
    and "body resp = Body_ok"
  shows "access_links net (setup_session retries) [link] st =
           (None,
            st\<lparr>requests := requests st + 1,
               log := log st @
                 [if status_code resp = 200 then Accessed link
                  else Failed link (status_code resp)]\<rparr>)"
proof -
  have "\<not> is_retry (setup_session retries) (status_code resp) (has_retry_after resp)"
    using assms(3,4)
    by (auto simp: is_retry_def setup_session_def RETRY_AFTER_STATUS_CODES_def)
  from session_get_final [OF assms(1,2) this assms(5,6)] show ?thesis by simp
qed

theorem status_outside_forcelist_is_final_witness:
  "url_kind (always (Response (plain 404))) 0 unsubscribe_url = Sendable \<and>
   reply (always (Response (plain 404))) (requests idle) unsubscribe_url =
     Response (plain 404) \<and>
   status_code (plain 404) \<notin> set (status_forcelist (setup_session 3)) \<and>
   \<not> is_redirect (plain 404) \<and>
   body (plain 404) = Body_ok \<and>
   access_links (always (Response (plain 404))) (setup_session 3) [unsubscribe_url] idle =
     (None, \<lparr>commands = [], requests = 1, log = [Failed unsubscribe_url 404]\<rparr>)"
proof -
  have a: "url_kind (always (Response (plain 404))) 0 unsubscribe_url = Sendable"
    by (simp add: always_def example_kind_def unsubscribe_url_def bad_label_url_def)
  have b: "reply (always (Response (plain 404))) (requests idle) unsubscribe_url =
     Response (plain 404)"
    by (simp add: always_def)
  have c: "status_code (plain 404) \<notin> set (status_forcelist (setup_session 3))"
    and d: "\<not> (status_code (plain 404) = 413 \<and> has_retry_after (plain 404))"
    and e: "\<not> is_redirect (plain 404)"
    and f: "body (plain 404) = Body_ok"
    by (simp_all add: plain_def setup_session_def is_redirect_def)
  from status_outside_forcelist_is_final [OF a b c d e f] a b c e f show ?thesis
    by (simp add: plain_def idle_def)
qed

theorem retried_or_redirected_counterexample:
  "413 \<notin> set (status_forcelist (setup_session 3)) \<and>
   access_links (always (Response ((plain 413)\<lparr>retry_after := Header_delay\<rparr>)))
       (setup_session 3) [unsubscribe_url] idle =
     (None, \<lparr>commands = [], requests = 4, log = [Failed unsubscribe_url 413]\<rparr>) \<and>
   302 \<notin> set (status_forcelist (setup_session 3)) \<and>
   reply moved 0 unsubscribe_url = Response ((plain 302)\<lparr>location := Location done_url\<rparr>) \<and>
   access_links moved (setup_session 3) [unsubscribe_url] idle =
     (None, \<lparr>commands = [], requests = 2, log = [Accessed unsubscribe_url]\<rparr>)"
  by (simp add: visit_simps moved_def)

end
